theory Spec2Isabelle
  imports Complex_Main "HOL-Library.Word"
begin

section \<open>The IRC backend of \<^verbatim>\<open>sopel/irc/backends.py\<close>\<close>

text \<open>
  The module is embedded as state transformers on a record that holds the attributes of
  \<^verbatim>\<open>AsynchatBackend\<close>. Everything the backend does to the outside (the calls on the
  bot, on the transport and on the timeout scheduler) is appended to a trace, in the order
  the calls are made. The clock (\<^verbatim>\<open>datetime.datetime.utcnow()\<close>) is read through an
  explicit argument; a timestamp is a number of seconds, and a difference of timestamps is
  what \<^verbatim>\<open>total_seconds()\<close> returns. A finite Python float is the rational it denotes.
\<close>

subsection \<open>Bytes and text\<close>

type_synonym byte = "8 word"

text \<open>A Python 3 \<^verbatim>\<open>str\<close> is a sequence of Unicode code points.\<close>

type_synonym unicode = "nat list"

definition LF :: nat where
  "LF = 10"

definition CR :: nat where
  "CR = 13"

subsection \<open>The three codecs tried by \<^verbatim>\<open>collect_incoming_data\<close>\<close>

text \<open>
  The codecs belong to the Python library. \<^verbatim>\<open>utf-8\<close> in strict mode accepts the
  well-formed byte sequences of the Unicode standard only (no overlong form, no surrogate,
  nothing above U+10FFFF); \<^verbatim>\<open>cp1252\<close> has five undefined bytes; \<^verbatim>\<open>iso8859-1\<close> maps
  every byte to the code point of the same number. \<open>None\<close> stands for
  \<^verbatim>\<open>UnicodeDecodeError\<close>.
\<close>

definition is_cont :: "nat \<Rightarrow> bool" where
  "is_cont b = (128 \<le> b \<and> b \<le> 191)"

definition second_of3 :: "nat \<Rightarrow> nat \<Rightarrow> bool" where
  "second_of3 b0 b1 =
     (if b0 = 224 then 160 \<le> b1 \<and> b1 \<le> 191
      else if b0 = 237 then 128 \<le> b1 \<and> b1 \<le> 159
      else is_cont b1)"

definition second_of4 :: "nat \<Rightarrow> nat \<Rightarrow> bool" where
  "second_of4 b0 b1 =
     (if b0 = 240 then 144 \<le> b1 \<and> b1 \<le> 191
      else if b0 = 244 then 128 \<le> b1 \<and> b1 \<le> 143
      else is_cont b1)"

fun utf8_points :: "nat list \<Rightarrow> unicode option" where
  "utf8_points [] = Some []"
| "utf8_points (b0 # bs) =
     (if b0 < 128 then map_option ((#) b0) (utf8_points bs)
      else if 194 \<le> b0 \<and> b0 \<le> 223 then
        (case bs of
           b1 # r \<Rightarrow>
             if is_cont b1
             then map_option ((#) ((b0 - 192) * 64 + (b1 - 128))) (utf8_points r)
             else None
         | _ \<Rightarrow> None)
      else if 224 \<le> b0 \<and> b0 \<le> 239 then
        (case bs of
           b1 # b2 # r \<Rightarrow>
             if second_of3 b0 b1 \<and> is_cont b2
             then map_option
                    ((#) ((b0 - 224) * 4096 + (b1 - 128) * 64 + (b2 - 128)))
                    (utf8_points r)
             else None
         | _ \<Rightarrow> None)
      else if 240 \<le> b0 \<and> b0 \<le> 244 then
        (case bs of
           b1 # b2 # b3 # r \<Rightarrow>
             if second_of4 b0 b1 \<and> is_cont b2 \<and> is_cont b3
             then map_option
                    ((#) ((b0 - 240) * 262144 + (b1 - 128) * 4096
                          + (b2 - 128) * 64 + (b3 - 128)))
                    (utf8_points r)
             else None
         | _ \<Rightarrow> None)
      else None)"

definition decode_utf8 :: "byte list \<Rightarrow> unicode option" where
  "decode_utf8 data = utf8_points (map unat data)"

definition cp1252_high :: "nat list" where
  "cp1252_high =
     [8364, 0, 8218, 402, 8222, 8230, 8224, 8225,
      710, 8240, 352, 8249, 338, 0, 381, 0,
      0, 8216, 8217, 8220, 8221, 8226, 8211, 8212,
      732, 8482, 353, 8250, 339, 0, 382, 376]"

definition cp1252_point :: "nat \<Rightarrow> nat option" where
  "cp1252_point b =
     (if b < 128 \<or> 160 \<le> b then Some b
      else if b \<in> {129, 141, 143, 144, 157} then None
      else Some (cp1252_high ! (b - 128)))"

fun cp1252_points :: "nat list \<Rightarrow> unicode option" where
  "cp1252_points [] = Some []"
| "cp1252_points (b # bs) =
     (case cp1252_point b of
        None \<Rightarrow> None
      | Some c \<Rightarrow> map_option ((#) c) (cp1252_points bs))"

definition decode_cp1252 :: "byte list \<Rightarrow> unicode option" where
  "decode_cp1252 data = cp1252_points (map unat data)"

definition decode_iso8859_1 :: "byte list \<Rightarrow> unicode option" where
  "decode_iso8859_1 data = Some (map unat data)"

subsection \<open>The backend and its trace\<close>

text \<open>
  What leaves the backend through \<^verbatim>\<open>irc_send\<close>: raw bytes, or the PING command that
  \<^verbatim>\<open>send_ping\<close> builds around its payload.
\<close>

datatype wire = Raw "byte list" | Ping "string option"

datatype job = SendPingJob | CheckTimeoutJob

datatype event =
    OnConnect
  | OnMessage unicode
  | OnClose
  | OnError
  | LogRaw unicode
  | TransportWrite nat wire
  | TransportClose nat
  | SchedulerStart
  | SchedulerStop
  | Warning

record backend =
  buffer :: unicode
  server_timeout :: rat
  ping_interval :: rat
  last_event_at :: "rat option"
  last_ping_at :: "rat option"
  host :: "string option"
  port :: "nat option"
  source_address :: "string option"
  timeout_jobs :: "job list"
  transport :: "nat option"
  protocol :: bool
  connected :: bool
  trace :: "event list"

subsection \<open>The product \<^verbatim>\<open>server_timeout * 0.45\<close>\<close>

datatype py_error = TypeError | SocketError | OverflowError | NameError | OSError

text \<open>
  Python multiplies an \<^verbatim>\<open>int\<close> by the float \<^verbatim>\<open>0.45\<close> in IEEE 754 double precision:
  the integer is converted to the nearest double (\<^verbatim>\<open>OverflowError\<close> when it is too large),
  and the exact product of the two doubles is rounded to the nearest double, in both steps
  with ties going to the even significand. A double has a significand of 53 bits.
\<close>

text \<open>The number of binary digits of a natural number.\<close>

fun bits :: "nat \<Rightarrow> nat" where
  "bits n = (if n = 0 then 0 else Suc (bits (n div 2)))"

declare bits.simps [simp del]

text \<open>\<open>a / 2 ^ sh\<close> rounded to the nearest natural number, ties to even.\<close>

definition rne_shift :: "nat \<Rightarrow> nat \<Rightarrow> nat" where
  "rne_shift a sh =
     (let q = a div 2 ^ sh; r = a mod 2 ^ sh
      in if 2 ^ sh < 2 * r \<or> (2 * r = 2 ^ sh \<and> odd q) then q + 1 else q)"

text \<open>
  \<open>a\<close> rounded to 53 significant bits: a significand \<open>m\<close> and a shift \<open>sh\<close>, standing
  for \<open>m * 2 ^ sh\<close>.
\<close>

definition round53 :: "nat \<Rightarrow> nat \<times> nat" where
  "round53 a = (let sh = bits a - 53 in (rne_shift a sh, sh))"

text \<open>
  The magnitude of \<^verbatim>\<open>float(n)\<close>; \<open>None\<close> when the rounded value reaches \<open>2 ^ 1024\<close>,
  where Python raises \<^verbatim>\<open>OverflowError\<close>.
\<close>

definition float_of_int :: "int \<Rightarrow> (nat \<times> nat) option" where
  "float_of_int n =
     (let (m, sh) = round53 (nat \<bar>n\<bar>)
      in if 2 ^ 1024 \<le> m * 2 ^ sh then None else Some (m, sh))"

text \<open>The double written \<^verbatim>\<open>0.45\<close> is \<open>8106479329266893 / 2 ^ 54\<close>.\<close>

definition mantissa_045 :: nat where
  "mantissa_045 = 8106479329266893"

text \<open>
  \<^verbatim>\<open>n * 0.45\<close>. The product is smaller in magnitude than \<^verbatim>\<open>float(n)\<close> and, for
  \<open>n \<noteq> 0\<close>, at least \<open>0.45\<close>, so it neither overflows nor is subnormal.
\<close>

definition times_045 :: "int \<Rightarrow> py_error + rat" where
  "times_045 n =
     (case float_of_int n of
        None \<Rightarrow> Inl OverflowError
      | Some (m, sh) \<Rightarrow>
          (let (m', sh') = round53 (m * mantissa_045)
           in Inr (of_int (sgn n) * of_nat m' * 2 ^ (sh + sh') / 2 ^ 54)))"

subsection \<open>Construction\<close>

text \<open>
  \<^verbatim>\<open>__init__\<close>, whose two numeric arguments are documented as \<^verbatim>\<open>int\<close>:
  \<^verbatim>\<open>server_timeout or 120\<close> and \<^verbatim>\<open>ping_interval or (self.server_timeout * 0.45)\<close>.
  An argument is falsy when it is \<^verbatim>\<open>None\<close> or zero, and the product is computed only
  then.
\<close>

definition truthy :: "int option \<Rightarrow> int option" where
  "truthy x = (case x of None \<Rightarrow> None | Some v \<Rightarrow> if v = 0 then None else Some v)"

definition py_or :: "int option \<Rightarrow> int \<Rightarrow> int" where
  "py_or x d = (case truthy x of None \<Rightarrow> d | Some v \<Rightarrow> v)"

text \<open>The attribute assignments of \<^verbatim>\<open>__init__\<close>, given the two computed numbers.\<close>

definition new_backend :: "rat \<Rightarrow> rat \<Rightarrow> backend" where
  "new_backend timeout interval =
     \<lparr> buffer = [],
       server_timeout = timeout,
       ping_interval = interval,
       last_event_at = None,
       last_ping_at = None,
       host = None,
       port = None,
       source_address = None,
       timeout_jobs = [SendPingJob, CheckTimeoutJob],
       transport = None,
       protocol = False,
       connected = False,
       trace = [] \<rparr>"

definition init_backend :: "int option \<Rightarrow> int option \<Rightarrow> py_error + backend" where
  "init_backend st iv =
     (let timeout = py_or st 120
      in case truthy iv of
           Some v \<Rightarrow> Inr (new_backend (of_int timeout) (of_int v))
         | None \<Rightarrow>
             (case times_045 timeout of
                Inl e \<Rightarrow> Inl e
              | Inr p \<Rightarrow> Inr (new_backend (of_int timeout) p)))"

definition is_connected :: "backend \<Rightarrow> bool" where
  "is_connected s = connected s"

definition emit :: "event \<Rightarrow> 'a backend_scheme \<Rightarrow> 'a backend_scheme" where
  "emit e s = s\<lparr>trace := trace s @ [e]\<rparr>"

subsection \<open>Receiving\<close>

text \<open>The nested \<^verbatim>\<open>try\<close> blocks of \<^verbatim>\<open>collect_incoming_data\<close>.\<close>

definition decode_chunk :: "byte list \<Rightarrow> unicode option" where
  "decode_chunk data =
     (case decode_utf8 data of
        Some t \<Rightarrow> Some t
      | None \<Rightarrow>
          (case decode_cp1252 data of
             Some t \<Rightarrow> Some t
           | None \<Rightarrow>
               (case decode_iso8859_1 data of
                  Some t \<Rightarrow> Some t
                | None \<Rightarrow> None)))"

definition collect_incoming_data :: "rat \<Rightarrow> byte list \<Rightarrow> backend \<Rightarrow> backend" where
  "collect_incoming_data now data s =
     (case decode_chunk data of
        None \<Rightarrow> s
      | Some t \<Rightarrow>
          (let s1 = (if t \<noteq> [] then emit (LogRaw t) s else s)
           in s1\<lparr>buffer := buffer s1 @ t, last_event_at := Some now\<rparr>))"

definition endswith_cr :: "unicode \<Rightarrow> bool" where
  "endswith_cr t = (t \<noteq> [] \<and> last t = CR)"

definition found_terminator :: "backend \<Rightarrow> backend" where
  "found_terminator s =
     (let line = buffer s;
          line' = (if endswith_cr line then butlast line else line)
      in emit (OnMessage line') (s\<lparr>buffer := []\<rparr>))"

text \<open>
  \<^verbatim>\<open>self.buffer.split('\n', 1)\<close> under the guard \<^verbatim>\<open>'\n' in self.buffer\<close>: the text
  before the first line feed and the text after it.
\<close>

definition split_lf :: "unicode \<Rightarrow> unicode \<times> unicode" where
  "split_lf t = (takeWhile (\<lambda>c. c \<noteq> LF) t, drop 1 (dropWhile (\<lambda>c. c \<noteq> LF) t))"

text \<open>
  The \<^verbatim>\<open>while\<close> loop of \<^verbatim>\<open>data_received\<close>. The tuple assignment stores the text after
  the line feed in \<^verbatim>\<open>self.buffer\<close> and the text before it in the local \<^verbatim>\<open>line\<close>, which
  is not used again; \<^verbatim>\<open>found_terminator\<close> then reads \<^verbatim>\<open>self.buffer\<close>.
\<close>

function drain_lines :: "backend \<Rightarrow> backend" where
  "drain_lines s =
     (if LF \<in> set (buffer s)
      then (let (line, rest) = split_lf (buffer s)
            in drain_lines (found_terminator (s\<lparr>buffer := rest\<rparr>)))
      else s)"
  by pat_completeness auto
termination
proof (relation "measure (\<lambda>s. length (buffer s))")
  show "wf (measure (\<lambda>s. length (buffer s)))"
    by simp
next
  fix s :: backend and x line rest
  assume "LF \<in> set (buffer s)"
  then have "buffer s \<noteq> []"
    by auto
  then show "(found_terminator (s\<lparr>buffer := rest\<rparr>), s) \<in> measure (\<lambda>s. length (buffer s))"
    by (simp add: found_terminator_def emit_def Let_def)
qed

declare drain_lines.simps [simp del]

definition data_received :: "rat \<Rightarrow> byte list \<Rightarrow> backend \<Rightarrow> backend" where
  "data_received now data s = drain_lines (collect_incoming_data now data s)"

subsection \<open>Sending\<close>

text \<open>The outcome of \<^verbatim>\<open>transport.write\<close> when it is called.\<close>

datatype io = IoOk | IoSocketError

definition irc_send :: "io \<Rightarrow> wire \<Rightarrow> backend \<Rightarrow> py_error + backend" where
  "irc_send w data s =
     (case transport s of
        Some t \<Rightarrow>
          (case w of
             IoOk \<Rightarrow> Inr (emit (TransportWrite t data) s)
           | IoSocketError \<Rightarrow> Inl SocketError)
      | None \<Rightarrow> Inr (emit Warning s))"

text \<open>
  Modelled from the spec: \<^verbatim>\<open>send_ping\<close> is a method of \<^verbatim>\<open>AbstractIRCBackend\<close>, whose
  module is not among the sources. The spec has the job send a PING with the given payload
  through the backend's send operation.
\<close>

definition send_ping :: "io \<Rightarrow> string option \<Rightarrow> backend \<Rightarrow> py_error + backend" where
  "send_ping w h s = irc_send w (Ping h) s"

subsection \<open>Connecting and closing\<close>

definition handle_connect :: "'a backend_scheme \<Rightarrow> 'a backend_scheme" where
  "handle_connect s = emit OnConnect (emit SchedulerStart s)"

definition handle_close :: "'a backend_scheme \<Rightarrow> 'a backend_scheme" where
  "handle_close s =
     (let s1 = emit SchedulerStop s;
          s2 = (case transport s1 of
                  Some t \<Rightarrow> (emit (TransportClose t) s1)\<lparr>transport := None\<rparr>
                | None \<Rightarrow> s1);
          s3 = s2\<lparr>connected := False\<rparr>
      in emit OnClose s3)"

definition handle_error :: "backend \<Rightarrow> backend" where
  "handle_error s = emit OnError s"

definition connection_made :: "nat \<Rightarrow> 'a backend_scheme \<Rightarrow> 'a backend_scheme" where
  "connection_made t s = handle_connect (s\<lparr>transport := Some t\<rparr>)"

definition connection_lost :: "backend \<Rightarrow> backend" where
  "connection_lost s = handle_close s"

definition on_scheduler_error :: "backend \<Rightarrow> backend" where
  "on_scheduler_error s = handle_close s"

definition on_job_error :: "backend \<Rightarrow> backend" where
  "on_job_error s = handle_close s"

text \<open>
  \<^verbatim>\<open>loop.create_connection\<close> belongs to asyncio: either it raises, or it builds the
  transport, calls \<^verbatim>\<open>connection_made\<close> on the protocol made by the factory (here
  \<^verbatim>\<open>IRCProtocol\<close>, which forwards to the backend) and returns the pair. Its outcome is an
  argument of the model.
\<close>

datatype conn_result = Established nat | ConnSocketError | ConnException

definition initiate_connect ::
  "string \<Rightarrow> nat \<Rightarrow> string option \<Rightarrow> conn_result \<Rightarrow> backend \<Rightarrow> backend" where
  "initiate_connect h p src r s =
     (let s1 = s\<lparr>host := Some h, port := Some p, source_address := src\<rparr>
      in case r of
           Established t \<Rightarrow>
             (let s2 = connection_made t s1
              in s2\<lparr>transport := Some t, protocol := True, connected := True\<rparr>)
         | ConnSocketError \<Rightarrow> handle_close s1
         | ConnException \<Rightarrow> handle_close s1)"

subsection \<open>The timeout jobs\<close>

text \<open>
  Modelled from the spec: \<^verbatim>\<open>discard_buffers\<close> is not defined in \<^verbatim>\<open>backends.py\<close>; it
  would come from \<^verbatim>\<open>AbstractIRCBackend\<close>, whose module is not among the sources. The
  spec has it discard any buffered partial line.
\<close>

definition discard_buffers :: "backend \<Rightarrow> backend" where
  "discard_buffers s = s\<lparr>buffer := []\<rparr>"

text \<open>\<^verbatim>\<open>max(events)\<close> on a list that the caller has found non-empty.\<close>

definition py_max :: "rat list \<Rightarrow> rat" where
  "py_max xs = fold max (tl xs) (hd xs)"

definition ping_events :: "backend \<Rightarrow> rat list" where
  "ping_events s =
     (case last_event_at s of Some t \<Rightarrow> [t] | None \<Rightarrow> [])
     @ (case last_ping_at s of Some t \<Rightarrow> [t] | None \<Rightarrow> [])"

definition need_ping :: "rat \<Rightarrow> backend \<Rightarrow> bool" where
  "need_ping now s =
     (if ping_events s \<noteq> []
      then now - py_max (ping_events s) > ping_interval s
      else True)"

text \<open>
  \<^verbatim>\<open>_send_ping\<close> reads the clock twice: \<open>now\<close> for the elapsed time, \<open>now'\<close> for the
  new \<^verbatim>\<open>last_ping_at\<close>. A \<^verbatim>\<open>socket.error\<close> of the send is logged and swallowed.
\<close>

definition job_send_ping :: "rat \<Rightarrow> rat \<Rightarrow> io \<Rightarrow> backend \<Rightarrow> py_error + backend" where
  "job_send_ping now now' w s =
     (if \<not> is_connected s then Inr s
      else if need_ping now s then
        (case send_ping w (host s) s of
           Inr s1 \<Rightarrow> Inr (s1\<lparr>last_ping_at := Some now'\<rparr>)
         | Inl SocketError \<Rightarrow> Inr s
         | Inl e \<Rightarrow> Inl e)
      else Inr s)"

text \<open>
  \<^verbatim>\<open>_check_timeout\<close>: subtracting \<^verbatim>\<open>None\<close> from a \<^verbatim>\<open>datetime\<close> raises
  \<^verbatim>\<open>TypeError\<close>.
\<close>

definition job_check_timeout :: "rat \<Rightarrow> backend \<Rightarrow> py_error + backend" where
  "job_check_timeout now s =
     (if \<not> is_connected s then Inr s
      else case last_event_at s of
             None \<Rightarrow> Inl TypeError
           | Some t \<Rightarrow>
               if now - t > server_timeout s
               then Inr (handle_close (discard_buffers s))
               else Inr s)"

subsection \<open>Connecting with TLS: \<^verbatim>\<open>SSLAsynchatBackend\<close>\<close>

text \<open>
  \<^verbatim>\<open>SSLAsynchatBackend\<close> adds three attributes to the backend and connects through its
  own \<^verbatim>\<open>initiate_connect\<close>, which hands an SSL context to \<^verbatim>\<open>create_connection\<close>.
  (\<^verbatim>\<open>IRCProtocol.handle_connect\<close> is not called from the module, and the first attribute
  it reads, \<^verbatim>\<open>self.verify_ssl\<close>, is not one that \<^verbatim>\<open>IRCProtocol\<close> has.)
\<close>

record ssl_backend = backend +
  verify_ssl :: bool
  ssl :: "nat option"
  ca_certs :: "string option"

definition new_ssl_backend :: "bool \<Rightarrow> string option \<Rightarrow> backend \<Rightarrow> ssl_backend" where
  "new_ssl_backend v ca b = backend.extend b \<lparr>verify_ssl = v, ssl = None, ca_certs = ca\<rparr>"

definition init_ssl_backend ::
  "bool \<Rightarrow> string option \<Rightarrow> int option \<Rightarrow> int option \<Rightarrow> py_error + ssl_backend" where
  "init_ssl_backend v ca st iv =
     (case init_backend st iv of
        Inl e \<Rightarrow> Inl e
      | Inr b \<Rightarrow> Inr (new_ssl_backend v ca b))"

text \<open>
  The settings of an \<^verbatim>\<open>ssl.SSLContext\<close> that the method touches.
  \<^verbatim>\<open>ssl.create_default_context\<close> for \<^verbatim>\<open>Purpose.SERVER_AUTH\<close> requires a certificate
  and checks the host name.
\<close>

record ssl_context =
  check_hostname :: bool
  verify_required :: bool
  cafile :: "string option"

definition create_default_context :: "string option \<Rightarrow> ssl_context" where
  "create_default_context ca =
     \<lparr>check_hostname = True, verify_required = True, cafile = ca\<rparr>"

text \<open>
  What lies outside the module: whether \<^verbatim>\<open>import ssl\<close> bound the name \<^verbatim>\<open>ssl\<close>,
  whether the CA file can be loaded, whether the server accepts the TCP connection, whether the TLS
  handshake succeeds apart from the certificate, whether the certificate chain is trusted,
  the host names the certificate is valid for, whether the event loop fails otherwise,
  and the transport of an established connection.
\<close>

record tls_world =
  ssl_bound :: bool
  cafile_loads :: bool
  reachable :: bool
  handshake_ok :: bool
  cert_trusted :: bool
  cert_names :: "string list"
  loop_fault :: bool
  peer_transport :: nat

text \<open>
  What \<^verbatim>\<open>create_connection\<close> raises: an \<^verbatim>\<open>OSError\<close> with one of four causes
  (\<^verbatim>\<open>socket.error\<close> is \<^verbatim>\<open>OSError\<close>, and so are \<^verbatim>\<open>ssl.SSLError\<close> and the
  \<^verbatim>\<open>ssl.SSLCertVerificationError\<close> of a certificate that is not trusted or, under
  \<^verbatim>\<open>check_hostname\<close>, is for another host), or some other exception.
\<close>

datatype os_cause = Refused | HandshakeFailure | CertificateUntrusted | HostnameMismatch

datatype tls_result = TlsEstablished nat | TlsOSError os_cause | TlsOtherException

definition tls_create_connection :: "ssl_context \<Rightarrow> string \<Rightarrow> tls_world \<Rightarrow> tls_result" where
  "tls_create_connection ctx h w =
     (if loop_fault w then TlsOtherException
      else if \<not> reachable w then TlsOSError Refused
      else if \<not> handshake_ok w then TlsOSError HandshakeFailure
      else if verify_required ctx \<and> \<not> cert_trusted w then TlsOSError CertificateUntrusted
      else if check_hostname ctx \<and> h \<notin> set (cert_names w) then TlsOSError HostnameMismatch
      else TlsEstablished (peer_transport w))"

text \<open>A call returns, or raises and leaves the object as it then is.\<close>

datatype 'a outcome = Returned 'a | Raised py_error 'a

text \<open>
  \<^verbatim>\<open>SSLAsynchatBackend.initiate_connect\<close>. The context is built before the \<^verbatim>\<open>try\<close>
  block, so an error there is not caught. Both \<^verbatim>\<open>except\<close> clauses log the exception
  and call \<^verbatim>\<open>handle_close\<close>.
\<close>

definition ssl_initiate_connect ::
  "string \<Rightarrow> nat \<Rightarrow> string option \<Rightarrow> tls_world \<Rightarrow> ssl_backend \<Rightarrow> ssl_backend outcome" where
  "ssl_initiate_connect h p src w s =
     (let s1 = s\<lparr>host := Some h, port := Some p, source_address := src\<rparr>
      in if \<not> ssl_bound w then Raised NameError s1
         else if ca_certs s1 \<noteq> None \<and> \<not> cafile_loads w then Raised OSError s1
         else
           (let ctx0 = create_default_context (ca_certs s1);
                ctx = (if verify_ssl s1
                       then ctx0\<lparr>check_hostname := True\<rparr>
                       else ctx0\<lparr>check_hostname := False, verify_required := False\<rparr>)
            in case tls_create_connection ctx h w of
                 TlsEstablished t \<Rightarrow>
                   (let s2 = connection_made t s1
                    in Returned (s2\<lparr>transport := Some t, protocol := True, connected := True\<rparr>))
               | TlsOSError e \<Rightarrow> Returned (handle_close s1)
               | TlsOtherException \<Rightarrow> Returned (handle_close s1)))"

subsection \<open>Observations on a trace\<close>

text \<open>The object as a call leaves it.\<close>

fun final :: "'a outcome \<Rightarrow> 'a" where
  "final (Returned s) = s"
| "final (Raised e s) = s"

fun delivered :: "event list \<Rightarrow> unicode list" where
  "delivered [] = []"
| "delivered (OnMessage l # es) = l # delivered es"
| "delivered (e # es) = delivered es"



fun feed :: "rat \<Rightarrow> byte list list \<Rightarrow> backend \<Rightarrow> backend" where
  "feed now [] s = s"
| "feed now (c # cs) s = feed now cs (data_received now c s)"

subsection \<open>Example states\<close>

text \<open>A backend built with the defaults, see \<open>init_backend_fresh\<close>.\<close>

definition fresh :: backend where
  "fresh = new_backend 120 54"

definition linked_up :: backend where
  "linked_up = initiate_connect ''irc.example.org'' 6667 None (Established 1) fresh"

definition strict_tls :: ssl_backend where
  "strict_tls = new_ssl_backend True None fresh"

text \<open>A server that presents a trusted certificate issued for another host.\<close>

definition wrong_name_world :: tls_world where
  "wrong_name_world =
     \<lparr> ssl_bound = True, cafile_loads = True, reachable = True, handshake_ok = True,
       cert_trusted = True, cert_names = [''irc.elsewhere.example''], loop_fault = False,
       peer_transport = 1 \<rparr>"

text \<open>A server with the right certificate whose handshake fails.\<close>

definition broken_handshake_world :: tls_world where
  "broken_handshake_world =
     \<lparr> ssl_bound = True, cafile_loads = True, reachable = True, handshake_ok = False,
       cert_trusted = True, cert_names = [''irc.example.org''], loop_fault = False,
       peer_transport = 1 \<rparr>"

text \<open>A backend is linked when being connected comes with a transport.\<close>

definition linked :: "backend \<Rightarrow> bool" where
  "linked s = (connected s \<longrightarrow> transport s \<noteq> None)"

section \<open>Properties\<close>

lemmas receive_defs =
  data_received_def collect_incoming_data_def decode_chunk_def decode_utf8_def
  found_terminator_def split_lf_def endswith_cr_def emit_def LF_def CR_def Let_def

lemmas connect_defs =
  initiate_connect_def connection_made_def handle_connect_def handle_close_def
  emit_def Let_def

lemmas example_defs =
  fresh_def linked_up_def new_backend_def

lemma drain_lines_unfold:
  "drain_lines s =
     (if LF \<in> set (buffer s)
      then drain_lines (found_terminator (s\<lparr>buffer := snd (split_lf (buffer s))\<rparr>))
      else s)"
  by (subst drain_lines.simps) (simp only: split_def Let_def)

text \<open>\<^verbatim>\<open>found_terminator\<close> empties the buffer, so the loop body runs at most once.\<close>

lemma drain_lines_once:
  "drain_lines s =
     (if LF \<in> set (buffer s)
      then found_terminator (s\<lparr>buffer := snd (split_lf (buffer s))\<rparr>)
      else s)"
proof (cases "LF \<in> set (buffer s)")
  case True
  let ?s' = "found_terminator (s\<lparr>buffer := snd (split_lf (buffer s))\<rparr>)"
  have "buffer ?s' = []"
    by (simp add: found_terminator_def emit_def Let_def)
  then have "drain_lines ?s' = ?s'"
    by (subst drain_lines_unfold) simp
  with True show ?thesis
    by (subst drain_lines_unfold) simp
next
  case False
  then show ?thesis
    by (subst drain_lines_unfold) simp
qed

lemma data_received_no_line_feed_left: "LF \<notin> set (buffer (data_received now data s))"
  by (simp add: data_received_def drain_lines_once found_terminator_def emit_def Let_def)

lemma data_received_link:
  "connected (data_received now data s) = connected s
   \<and> transport (data_received now data s) = transport s"
  by (simp add: data_received_def drain_lines_once found_terminator_def
      collect_incoming_data_def emit_def Let_def split: option.splits)


text \<open>Every operation keeps a backend linked, and a new backend is linked.\<close>

lemma linked_new_backend: "linked (new_backend timeout interval)"
  by (simp add: linked_def new_backend_def)

lemma linked_init_backend: "init_backend st iv = Inr s \<Longrightarrow> linked s"
  by (auto simp: init_backend_def linked_new_backend Let_def split: option.splits sum.splits)

lemma linked_initiate_connect: "linked (initiate_connect h p src r s)"
  by (cases r) (simp_all add: linked_def connect_defs split: option.splits)

lemma linked_handle_close: "linked (handle_close s)"
  by (simp add: linked_def connect_defs split: option.splits)

lemma linked_connection_made: "linked (connection_made t s)"
  by (simp add: linked_def connect_defs)

lemma linked_data_received: "linked s \<Longrightarrow> linked (data_received now data s)"
  by (simp add: linked_def data_received_link)

lemma linked_job_send_ping:
  "linked s \<Longrightarrow> job_send_ping now now' w s = Inr s' \<Longrightarrow> linked s'"
  by (cases w)
    (auto simp: linked_def job_send_ping_def send_ping_def irc_send_def emit_def
      split: if_splits option.splits)

lemma linked_job_check_timeout:
  "linked s \<Longrightarrow> job_check_timeout now s = Inr s' \<Longrightarrow> linked s'"
  by (auto simp: job_check_timeout_def linked_handle_close split: if_splits option.splits)

text \<open>
  With a last-event time, \<^verbatim>\<open>_check_timeout\<close> on a connected backend whose server has
  been silent for longer than the timeout empties the buffer and closes, and no line is
  handed to the bot.
\<close>

lemma job_check_timeout_fires:
  "is_connected s \<Longrightarrow> last_event_at s = Some t \<Longrightarrow> now - t > server_timeout s \<Longrightarrow>
   job_check_timeout now s = Inr (handle_close (discard_buffers s))"
  by (simp add: job_check_timeout_def)

text \<open>A \<^verbatim>\<open>socket.error\<close> of the write is swallowed: nothing is sent or recorded.\<close>

lemma job_send_ping_socket_error:
  "is_connected s \<Longrightarrow> transport s = Some t \<Longrightarrow>
   job_send_ping now now' IoSocketError s = Inr s"
  by (simp add: job_send_ping_def send_ping_def irc_send_def)

text \<open>
  Each chunk is decoded on its own: the two bytes of \<^verbatim>\<open>U+00E9\<close> decode as one
  character together and as two CP-1252 characters when they arrive apart.
\<close>

lemma decode_chunk_per_chunk:
  "decode_chunk [195, 169] = Some [233]
   \<and> decode_chunk [195] = Some [195]
   \<and> decode_chunk [169] = Some [169]"
  by (simp add: decode_chunk_def decode_utf8_def decode_cp1252_def cp1252_point_def
      is_cont_def)

lemma decode_chunk_total: "\<exists>t. decode_chunk data = Some t"
  by (simp add: decode_chunk_def decode_iso8859_1_def split: option.splits)

subsection \<open>The default ping interval\<close>

lemma bits_lower: "0 < a \<Longrightarrow> 2 ^ (bits a - 1) \<le> a"
proof (induction a rule: bits.induct)
  case (1 n)
  show ?case
  proof (cases "n div 2 = 0")
    case True
    with "1.prems" have "bits n = 1"
      by (simp add: bits.simps)
    with "1.prems" show ?thesis by simp
  next
    case False
    then have pos: "0 < n div 2" by simp
    with "1.IH" "1.prems" have ih: "2 ^ (bits (n div 2) - 1) \<le> n div 2"
      by simp
    from pos have "0 < bits (n div 2)"
      by (subst bits.simps) simp
    then have "bits n - 1 = Suc (bits (n div 2) - 1)"
      using "1.prems" by (subst bits.simps) simp
    then have "(2::nat) ^ (bits n - 1) = 2 * 2 ^ (bits (n div 2) - 1)"
      by simp
    also have "\<dots> \<le> 2 * (n div 2)"
      using ih by simp
    also have "\<dots> \<le> n"
      by simp
    finally show ?thesis .
  qed
qed

lemma rne_shift_zero: "rne_shift a 0 = a"
  by (simp add: rne_shift_def)

text \<open>Rounding to the nearest multiple of \<open>2 ^ sh\<close> moves by at most half of it.\<close>

lemma rne_shift_error:
  "2 * \<bar>int (rne_shift a sh * 2 ^ sh) - int a\<bar> \<le> 2 ^ sh"
proof -
  define q where "q = a div 2 ^ sh"
  define r where "r = a mod 2 ^ sh"
  have a: "a = q * 2 ^ sh + r"
    unfolding q_def r_def by (rule div_mult_mod_eq [symmetric])
  have r: "r < 2 ^ sh"
    by (simp add: r_def)
  show ?thesis
  proof (cases "2 ^ sh < 2 * r \<or> (2 * r = 2 ^ sh \<and> odd q)")
    case True
    then have "rne_shift a sh = q + 1"
      by (simp add: rne_shift_def q_def r_def Let_def)
    then have "int (rne_shift a sh * 2 ^ sh) - int a = 2 ^ sh - int r"
      by (simp add: a algebra_simps)
    moreover from True have "2 ^ sh \<le> 2 * int r"
      by (metis less_imp_le of_nat_le_iff of_nat_mult of_nat_numeral of_nat_power order_refl)
    moreover from r have "int r < 2 ^ sh"
      by (metis of_nat_less_iff of_nat_numeral of_nat_power)
    ultimately show ?thesis
      by simp
  next
    case False
    then have "rne_shift a sh = q"
      by (simp add: rne_shift_def q_def r_def Let_def)
    then have "int (rne_shift a sh * 2 ^ sh) - int a = - int r"
      by (simp add: a)
    moreover from False have "\<not> 2 ^ sh < 2 * r"
      by simp
    then have "2 * int r \<le> 2 ^ sh"
      by (metis not_less of_nat_le_iff of_nat_mult of_nat_numeral of_nat_power)
    ultimately show ?thesis
      by simp
  qed
qed

text \<open>Rounding to 53 bits has a relative error of at most \<open>2 ^ - 53\<close>.\<close>

lemma round53_error:
  assumes "round53 a = (m, sh)"
  shows "2 ^ 53 * \<bar>int (m * 2 ^ sh) - int a\<bar> \<le> int a"
proof (cases "bits a \<le> 53")
  case True
  with assms have "sh = 0" "m = a"
    by (auto simp: round53_def rne_shift_zero Let_def)
  then show ?thesis by simp
next
  case False
  then have big: "53 < bits a" by simp
  from assms have sh: "sh = bits a - 53" and m: "m = rne_shift a sh"
    by (auto simp: round53_def Let_def)
  from big have "0 < a"
    by (cases "a = 0") (simp_all add: bits.simps)
  then have "2 ^ (bits a - 1) \<le> a"
    by (rule bits_lower)
  moreover from big sh have "bits a - 1 = 52 + sh" by simp
  ultimately have low: "(2::int) ^ 52 * 2 ^ sh \<le> int a"
    by (metis of_nat_le_iff of_nat_numeral of_nat_power power_add)
  have "2 * \<bar>int (m * 2 ^ sh) - int a\<bar> \<le> 2 ^ sh"
    unfolding m by (rule rne_shift_error)
  then have "2 ^ 53 * \<bar>int (m * 2 ^ sh) - int a\<bar> \<le> 2 ^ 52 * 2 ^ sh"
    by simp
  with low show ?thesis
    by linarith
qed

lemma round53_error_rat:
  assumes "round53 a = (m, sh)"
  shows "2 ^ 53 * \<bar>of_nat m * 2 ^ sh - (of_nat a :: rat)\<bar> \<le> of_nat a"
proof -
  have "(of_int (2 ^ 53 * \<bar>int (m * 2 ^ sh) - int a\<bar>) :: rat) \<le> of_int (int a)"
    using round53_error [OF assms] by (simp only: of_int_le_iff)
  then show ?thesis
    by simp
qed

text \<open>The conversion to a float succeeds below \<open>2 ^ 1023\<close> and fails from \<open>2 ^ 1025\<close> on.\<close>

lemma float_of_int_returns:
  assumes "\<bar>n\<bar> < 2 ^ 1023"
  shows "\<exists>m sh. float_of_int n = Some (m, sh)"
proof -
  obtain m sh where rd: "round53 (nat \<bar>n\<bar>) = (m, sh)"
    by (cases "round53 (nat \<bar>n\<bar>)")
  define X where "X = int (m * 2 ^ sh)"
  define y where "y = \<bar>X - \<bar>n\<bar>\<bar>"
  have "2 ^ 53 * \<bar>int (m * 2 ^ sh) - int (nat \<bar>n\<bar>)\<bar> \<le> int (nat \<bar>n\<bar>)"
    using rd by (rule round53_error)
  then have "9007199254740992 * y \<le> \<bar>n\<bar>"
    by (simp add: X_def y_def)
  moreover have "0 \<le> y" and "X - \<bar>n\<bar> \<le> y"
    by (simp_all add: y_def)
  ultimately have "X \<le> 2 * \<bar>n\<bar>"
    by linarith
  then have "int (m * 2 ^ sh) \<le> 2 * \<bar>n\<bar>"
    by (simp only: X_def)
  also have "\<dots> < 2 * 2 ^ 1023"
    using assms by simp
  finally have "int (m * 2 ^ sh) < int (2 ^ 1024)"
    by simp
  then have "m * 2 ^ sh < 2 ^ 1024"
    by (simp only: of_nat_less_iff)
  with rd show ?thesis
    by (simp add: float_of_int_def)
qed

lemma float_of_int_overflow:
  assumes "2 ^ 1025 \<le> \<bar>n\<bar>"
  shows "float_of_int n = None"
proof -
  obtain m sh where rd: "round53 (nat \<bar>n\<bar>) = (m, sh)"
    by (cases "round53 (nat \<bar>n\<bar>)")
  define X where "X = int (m * 2 ^ sh)"
  define y where "y = \<bar>X - \<bar>n\<bar>\<bar>"
  have "2 ^ 53 * \<bar>int (m * 2 ^ sh) - int (nat \<bar>n\<bar>)\<bar> \<le> int (nat \<bar>n\<bar>)"
    using rd by (rule round53_error)
  then have "9007199254740992 * y \<le> \<bar>n\<bar>"
    by (simp add: X_def y_def)
  moreover have "0 \<le> y" and "\<bar>n\<bar> - X \<le> y"
    by (simp_all add: y_def)
  ultimately have "\<bar>n\<bar> \<le> 2 * X"
    by linarith
  then have "\<bar>n\<bar> \<le> 2 * int (m * 2 ^ sh)"
    by (simp only: X_def)
  with assms have "2 * 2 ^ 1024 \<le> 2 * int (m * 2 ^ sh)"
    by simp
  then have "int (2 ^ 1024) \<le> int (m * 2 ^ sh)"
    by simp
  then have "2 ^ 1024 \<le> m * 2 ^ sh"
    by (simp only: of_nat_le_iff)
  with rd show ?thesis
    by (simp add: float_of_int_def)
qed

text \<open>
  The product differs from the exact \<open>0.45 * n\<close> by at most \<open>\<bar>n\<bar> / 2 ^ 52\<close>: two
  roundings, and the distance of the double \<^verbatim>\<open>0.45\<close> from \<open>45 / 100\<close>.
\<close>

lemma times_045_error:
  assumes "times_045 n = Inr p"
  shows "\<bar>p - 45 / 100 * of_int n\<bar> \<le> \<bar>of_int n\<bar> / 2 ^ 52"
proof -
  from assms obtain m sh where fl: "float_of_int n = Some (m, sh)"
    by (auto simp: times_045_def split: option.splits)
  obtain m' sh' where rd: "round53 (m * mantissa_045) = (m', sh')"
    by (cases "round53 (m * mantissa_045)")
  from assms fl rd
  have p: "p = of_int (sgn n) * of_nat m' * 2 ^ (sh + sh') / 2 ^ 54"
    by (simp add: times_045_def)
  from fl have rn: "round53 (nat \<bar>n\<bar>) = (m, sh)"
    by (auto simp: float_of_int_def Let_def split: prod.splits if_splits)
  define N :: rat where "N = \<bar>of_int n\<bar>"
  define X :: rat where "X = of_nat m * 2 ^ sh"
  define Z :: rat where "Z = \<bar>of_nat m' * 2 ^ sh' - of_nat (m * mantissa_045)\<bar> * 2 ^ sh"
  define R :: rat where "R = of_nat m' * 2 ^ (sh + sh') / 2 ^ 54"
  define A :: rat where "A = \<bar>X - N\<bar>"
  define c :: rat where "c = 8106479329266893 / 18014398509481984"
  have N0: "0 \<le> N"
    by (simp add: N_def)
  have nat_n: "(of_nat (nat \<bar>n\<bar>) :: rat) = N"
    by (simp add: N_def)
  from round53_error_rat [OF rn] nat_n have e1: "9007199254740992 * A \<le> N"
    by (simp add: X_def A_def)
  have "2 ^ 53 * \<bar>of_nat m' * 2 ^ sh' - (of_nat (m * mantissa_045) :: rat)\<bar> * 2 ^ sh
          \<le> of_nat (m * mantissa_045) * 2 ^ sh"
    using round53_error_rat [OF rd] by (rule mult_right_mono) simp
  then have e2: "9007199254740992 * Z \<le> 8106479329266893 * X"
    by (simp add: Z_def X_def mantissa_045_def mult.assoc mult.left_commute)
  have "R - c * X = (of_nat m' * 2 ^ sh' - of_nat (m * mantissa_045)) * 2 ^ sh / 2 ^ 54"
    by (simp add: R_def X_def c_def mantissa_045_def power_add field_simps)
  then have "\<bar>R - c * X\<bar>
          = \<bar>(of_nat m' * 2 ^ sh' - of_nat (m * mantissa_045)) * 2 ^ sh / 2 ^ 54\<bar>"
    by (simp only:)
  also have "\<dots> = Z / 2 ^ 54"
    unfolding Z_def by (simp add: abs_mult)
  finally have e3: "\<bar>R - c * X\<bar> = Z / 18014398509481984"
    by simp
  have c0: "0 \<le> c"
    by (simp add: c_def)
  have c1: "0 \<le> c - 45 / 100"
    by (simp add: c_def)
  have xn: "X \<le> N + A"
    by (simp add: A_def)
  have "R - 45 / 100 * N = (R - c * X) + (c * (X - N) + (c - 45 / 100) * N)"
    by (simp add: algebra_simps)
  then have "\<bar>R - 45 / 100 * N\<bar> \<le> \<bar>R - c * X\<bar> + \<bar>c * (X - N) + (c - 45 / 100) * N\<bar>"
    by (simp only: abs_triangle_ineq)
  also have "\<dots> \<le> \<bar>R - c * X\<bar> + (\<bar>c * (X - N)\<bar> + \<bar>(c - 45 / 100) * N\<bar>)"
    by (simp only: add_left_mono abs_triangle_ineq)
  also have "\<dots> = Z / 18014398509481984 + (c * A + (c - 45 / 100) * N)"
    using N0 c0 c1 by (simp only: e3 abs_mult abs_of_nonneg A_def)
  also have "\<dots> \<le> N / 4503599627370496"
    using e1 e2 xn N0 unfolding c_def by (simp add: field_simps)
  finally have main: "\<bar>R - 45 / 100 * N\<bar> \<le> N / 2 ^ 52"
    by simp
  have "p - 45 / 100 * of_int n = of_int (sgn n) * (R - 45 / 100 * N)"
    by (simp add: p R_def N_def algebra_simps sgn_if abs_if)
  then have "\<bar>p - 45 / 100 * of_int n\<bar> = \<bar>of_int (sgn n) :: rat\<bar> * \<bar>R - 45 / 100 * N\<bar>"
    by (simp add: abs_mult)
  also have "\<dots> \<le> \<bar>R - 45 / 100 * N\<bar>"
    by (simp add: sgn_if)
  finally show ?thesis
    using main by (simp add: N_def)
qed

lemma times_045_returns:
  assumes "\<bar>n\<bar> < 2 ^ 1023"
  shows "\<exists>p. times_045 n = Inr p"
proof -
  from float_of_int_returns [OF assms]
  obtain m sh where fl: "float_of_int n = Some (m, sh)"
    by blast
  obtain m' sh' where rd: "round53 (m * mantissa_045) = (m', sh')"
    by (cases "round53 (m * mantissa_045)")
  have "times_045 n = Inr (of_int (sgn n) * of_nat m' * 2 ^ (sh + sh') / 2 ^ 54)"
    by (simp add: times_045_def fl rd)
  then show ?thesis
    by (rule exI)
qed

lemma float_of_int_120: "float_of_int 120 = Some (120, 0)"
  by (simp add: float_of_int_def round53_def rne_shift_def bits.simps)

lemma round53_120: "round53 (120 * mantissa_045) = (7599824371187712, 7)"
  by (simp add: round53_def rne_shift_def bits.simps mantissa_045_def)

lemma times_045_120: "times_045 120 = Inr 54"
  by (simp add: times_045_def float_of_int_120 round53_120)

lemma float_of_int_13: "float_of_int 13 = Some (13, 0)"
  by (simp add: float_of_int_def round53_def rne_shift_def bits.simps)

lemma round53_13: "round53 (13 * mantissa_045) = (6586514455029351, 4)"
  by (simp add: round53_def rne_shift_def bits.simps mantissa_045_def)

lemma times_045_13: "times_045 13 = Inr (6586514455029351 / 1125899906842624)"
  by (simp add: times_045_def float_of_int_13 round53_13)

lemma init_backend_fresh: "init_backend None None = Inr fresh"
  by (simp add: init_backend_def py_or_def truthy_def times_045_120 fresh_def)

lemma init_backend_overflow: "init_backend (Some (2 ^ 1025)) None = Inl OverflowError"
  by (simp add: init_backend_def py_or_def truthy_def times_045_def float_of_int_overflow)

text \<open>
  C8, as the code has it. Without \<^verbatim>\<open>server_timeout\<close> the server timeout is 120, and
  the ping interval is the one given or, without one, 54. With a server timeout of 120 and no
  \<^verbatim>\<open>ping_interval\<close> the ping interval is 54. With any server timeout \<open>n\<close> below
  \<open>2 ^ 1023\<close> in magnitude and no \<^verbatim>\<open>ping_interval\<close>, the constructor returns, the
  server timeout is \<open>n\<close> (120 for \<open>n = 0\<close>), and the ping interval is the double-precision
  product of the server timeout and \<^verbatim>\<open>0.45\<close>, which lies within \<open>2 ^ - 52\<close> times the
  server timeout of 0.45 times the server timeout.
\<close>

theorem init_backend_defaults:
  "init_backend None iv =
     Inr (new_backend 120 (case truthy iv of None \<Rightarrow> 54 | Some v \<Rightarrow> of_int v))
   \<and> init_backend (Some 120) None = Inr (new_backend 120 54)
   \<and> (\<bar>n\<bar> < 2 ^ 1023 \<longrightarrow>
        (\<exists>p. times_045 (py_or (Some n) 120) = Inr p
            \<and> init_backend (Some n) None = Inr (new_backend (of_int (py_or (Some n) 120)) p)
            \<and> \<bar>p - 45 / 100 * of_int (py_or (Some n) 120)\<bar>
                \<le> \<bar>of_int (py_or (Some n) 120)\<bar> / 2 ^ 52))"
proof (intro conjI impI)
  show "init_backend None iv =
          Inr (new_backend 120 (case truthy iv of None \<Rightarrow> 54 | Some v \<Rightarrow> of_int v))"
    by (simp add: init_backend_def py_or_def truthy_def times_045_120 split: option.splits)
  show "init_backend (Some 120) None = Inr (new_backend 120 54)"
    by (simp add: init_backend_def py_or_def truthy_def times_045_120)
next
  assume n: "\<bar>n\<bar> < 2 ^ 1023"
  define t where "t = py_or (Some n) 120"
  have "\<bar>t\<bar> < 2 ^ 1023"
    using n by (simp add: t_def py_or_def truthy_def)
  then obtain p where p: "times_045 t = Inr p"
    using times_045_returns by blast
  then have "init_backend (Some n) None = Inr (new_backend (of_int t) p)"
    by (simp add: init_backend_def truthy_def t_def [symmetric])
  moreover from p have "\<bar>p - 45 / 100 * of_int t\<bar> \<le> \<bar>of_int t\<bar> / 2 ^ 52"
    by (rule times_045_error)
  ultimately show "\<exists>p. times_045 (py_or (Some n) 120) = Inr p
      \<and> init_backend (Some n) None = Inr (new_backend (of_int (py_or (Some n) 120)) p)
      \<and> \<bar>p - 45 / 100 * of_int (py_or (Some n) 120)\<bar>
          \<le> \<bar>of_int (py_or (Some n) 120)\<bar> / 2 ^ 52"
    using p unfolding t_def by blast
qed

theorem init_backend_defaults_witness:
  "\<exists>p. times_045 13 = Inr p
      \<and> init_backend (Some 13) None = Inr (new_backend 13 p)
      \<and> \<bar>p - 45 / 100 * 13\<bar> \<le> 13 / 2 ^ 52"
  using init_backend_defaults [of None 13]
  by (simp add: py_or_def truthy_def)

text \<open>
  C8 as stated fails: for a server timeout of 13 the ping interval is the double
  \<^verbatim>\<open>5.8500000000000005\<close>, which is not 0.45 times 13.
\<close>

theorem ping_interval_13_is_rounded:
  "init_backend (Some 13) None = Inr (new_backend 13 (6586514455029351 / 1125899906842624))
   \<and> ping_interval (new_backend 13 (6586514455029351 / 1125899906842624))
       \<noteq> 45 / 100 * server_timeout (new_backend 13 (6586514455029351 / 1125899906842624))"
  by (simp add: init_backend_def py_or_def truthy_def times_045_13 new_backend_def)

text \<open>
  C10. \<^verbatim>\<open>collect_incoming_data\<close> has no raising branch, and for every chunk of bytes the
  decoding succeeds (ISO 8859-1 accepts every byte, so the branch that returns without
  buffering is never taken): the decoded text is appended to the buffer and the last-event
  timestamp is set to the current time.
\<close>

theorem collect_incoming_data_never_discards:
  "\<exists>t. decode_chunk data = Some t
       \<and> buffer (collect_incoming_data now data s) = buffer s @ t
       \<and> last_event_at (collect_incoming_data now data s) = Some now
       \<and> collect_incoming_data now data s =
           (if t \<noteq> [] then emit (LogRaw t) s else s)
             \<lparr>buffer := buffer s @ t, last_event_at := Some now\<rparr>"
proof -
  obtain t where t: "decode_chunk data = Some t"
    using decode_chunk_total by blast
  then show ?thesis
    by (simp add: collect_incoming_data_def emit_def Let_def)
qed

text \<open>
  C2 (evaluated where the code departs from it). The chunk \<^verbatim>\<open>b"hi\r\n"\<close> holds one
  terminated line, \<^verbatim>\<open>hi\<close>. \<^verbatim>\<open>data_received\<close> hands the bot the text after the line
  feed instead, here the empty text, and \<^verbatim>\<open>hi\<close> is lost; the same happens for
  \<^verbatim>\<open>b"hi\n"\<close>.
\<close>

theorem data_received_delivers_text_after_terminator:
  "delivered (trace (data_received 0 [104, 105, 13, 10] fresh)) = [[]]
   \<and> delivered (trace (data_received 0 [104, 105, 10] fresh)) = [[]]
   \<and> buffer (data_received 0 [104, 105, 13, 10] fresh) = []"
  by (simp add: receive_defs example_defs drain_lines_once)

text \<open>
  C1 (evaluated where the code departs from it). The bytes \<^verbatim>\<open>b"a\nb\n"\<close> fed as the two
  chunks \<^verbatim>\<open>b"a\n"\<close> and \<^verbatim>\<open>b"b\n"\<close> deliver two empty lines; fed in one call they
  deliver the single text \<^verbatim>\<open>"b\n"\<close>.
\<close>

theorem feed_depends_on_chunking:
  "delivered (trace (feed 0 [[97, 10], [98, 10]] fresh)) = [[], []]
   \<and> delivered (trace (feed 0 [[97, 10, 98, 10]] fresh)) = [[98, 10]]"
  by (simp add: receive_defs example_defs drain_lines_once)

text \<open>
  C3 (evaluated where the code departs from it). After \<^verbatim>\<open>b"a\nb"\<close> the text \<^verbatim>\<open>b\<close>
  follows the last line feed and has no terminator yet; \<^verbatim>\<open>data_received\<close> hands it to
  the bot and leaves the buffer empty, so nothing of it is kept for the next call.
\<close>

theorem data_received_drops_residual_text:
  "buffer (data_received 0 [97, 10, 98] fresh) = []
   \<and> delivered (trace (data_received 0 [97, 10, 98] fresh)) = [[98]]"
  by (simp add: receive_defs example_defs drain_lines_once)

text \<open>
  C4, as the code has it. Two calls of \<^verbatim>\<open>handle_close\<close> in a row close the transport
  in the first call only, and only if there is one; each call stops the scheduler and
  signals \<^verbatim>\<open>on_close\<close>, so the bot is notified twice. The backend ends without
  transport and not connected. \<^verbatim>\<open>handle_close\<close> has no raising branch.
\<close>

theorem handle_close_twice:
  fixes s :: backend
  shows "trace (handle_close s) =
           trace s @ (case transport s of
                        Some t \<Rightarrow> [SchedulerStop, TransportClose t, OnClose]
                      | None \<Rightarrow> [SchedulerStop, OnClose])
   \<and> trace (handle_close (handle_close s)) = trace (handle_close s) @ [SchedulerStop, OnClose]
   \<and> transport (handle_close (handle_close s)) = None
   \<and> connected (handle_close (handle_close s)) = False"
  by (simp add: handle_close_def emit_def Let_def split: option.splits)

text \<open>C4 as stated fails: closing a connected backend twice signals \<^verbatim>\<open>on_close\<close> twice.\<close>

theorem double_close_notifies_twice:
  "count_list
     (trace (handle_close (handle_close
        (initiate_connect ''irc.example.org'' 6667 None (Established 1) fresh))))
     OnClose = 2"
  by (simp add: connect_defs example_defs)

text \<open>
  C5, as the code has it. When \<^verbatim>\<open>create_connection\<close> succeeds, the backend starts
  the scheduler and then signals \<^verbatim>\<open>on_connect\<close>, holds the transport and is connected;
  host, port and source address are stored. The last-event time is left as it was.
\<close>

theorem initiate_connect_success:
  "connected (initiate_connect h p src (Established t) s)
   \<and> transport (initiate_connect h p src (Established t) s) = Some t
   \<and> trace (initiate_connect h p src (Established t) s) = trace s @ [SchedulerStart, OnConnect]
   \<and> last_event_at (initiate_connect h p src (Established t) s) = last_event_at s
   \<and> host (initiate_connect h p src (Established t) s) = Some h
   \<and> port (initiate_connect h p src (Established t) s) = Some p
   \<and> source_address (initiate_connect h p src (Established t) s) = src"
  by (simp add: connect_defs)

text \<open>
  C5 as stated fails: after a successful connect of a new backend no last-event time is
  recorded.
\<close>

theorem initiate_connect_records_no_event_time:
  "last_event_at
     (initiate_connect ''irc.example.org'' 6667 None (Established 1) fresh)
   = None"
  by (simp add: connect_defs example_defs)



text \<open>
  C7 (evaluated where the code departs from it). A backend that has just connected and
  has received nothing yet has no last-event time; the check-timeout job raises
  \<^verbatim>\<open>TypeError\<close> on it.
\<close>

theorem job_check_timeout_raises_before_first_event:
  "job_check_timeout 1000
     (initiate_connect ''irc.example.org'' 6667 None (Established 1) fresh)
   = Inl TypeError"
  by (simp add: job_check_timeout_def is_connected_def connect_defs example_defs)

lemmas tls_defs =
  ssl_initiate_connect_def tls_create_connection_def create_default_context_def Let_def

text \<open>With verification switched off a certificate for another host is accepted.\<close>

lemma ssl_unverified_accepts:
  assumes "ssl_bound w" and "ca_certs s = None \<or> cafile_loads w" and "\<not> verify_ssl s"
    and "reachable w" and "handshake_ok w" and "\<not> loop_fault w"
  shows "ssl_initiate_connect h p src w s =
           Returned ((connection_made (peer_transport w)
                       (s\<lparr>host := Some h, port := Some p, source_address := src\<rparr>))
                     \<lparr>transport := Some (peer_transport w), protocol := True,
                      connected := True\<rparr>)"
  using assms by (auto simp: tls_defs)

text \<open>
  C9, as the code has it. With verification on and a certificate that is not valid for
  the configured host, \<^verbatim>\<open>initiate_connect\<close> of the SSL backend ends in
  \<^verbatim>\<open>handle_close\<close>: the backend is not connected and the bot receives \<^verbatim>\<open>on_close\<close>.
  The outcome is the same as for a handshake that fails for another reason. CNAMEs are not
  looked up on this path.
\<close>

theorem ssl_mismatch_closes:
  assumes "ssl_bound w" and "ca_certs s = None \<or> cafile_loads w" and "verify_ssl s"
    and "h \<notin> set (cert_names w)"
  shows "ssl_initiate_connect h p src w s =
           Returned (handle_close (s\<lparr>host := Some h, port := Some p, source_address := src\<rparr>))
   \<and> ssl_initiate_connect h p src (w\<lparr>handshake_ok := False\<rparr>) s =
       ssl_initiate_connect h p src w s
   \<and> \<not> connected (final (ssl_initiate_connect h p src w s))
   \<and> trace (final (ssl_initiate_connect h p src w s)) =
       trace s @ (case transport s of
                    Some t \<Rightarrow> [SchedulerStop, TransportClose t, OnClose]
                  | None \<Rightarrow> [SchedulerStop, OnClose])"
proof -
  let ?s1 = "s\<lparr>host := Some h, port := Some p, source_address := src\<rparr>"
  have closes: "ssl_initiate_connect h p src w s = Returned (handle_close ?s1)"
    using assms by (auto simp: tls_defs)
  have same: "ssl_initiate_connect h p src (w\<lparr>handshake_ok := False\<rparr>) s
      = Returned (handle_close ?s1)"
    using assms by (auto simp: tls_defs)
  have "\<not> connected (handle_close ?s1)"
    by (simp add: handle_close_def emit_def Let_def split: option.splits)
  moreover have "trace (handle_close ?s1) =
      trace s @ (case transport s of
                   Some t \<Rightarrow> [SchedulerStop, TransportClose t, OnClose]
                 | None \<Rightarrow> [SchedulerStop, OnClose])"
    by (simp add: handle_close_def emit_def Let_def split: option.splits)
  ultimately show ?thesis
    using closes same by simp
qed

theorem ssl_mismatch_closes_witness:
  "ssl_initiate_connect ''irc.example.org'' 6697 None wrong_name_world strict_tls =
     Returned (handle_close
       (strict_tls\<lparr>host := Some ''irc.example.org'', port := Some 6697,
                   source_address := None\<rparr>))
   \<and> trace (final (ssl_initiate_connect ''irc.example.org'' 6697 None wrong_name_world
        strict_tls)) = [SchedulerStop, OnClose]"
  using ssl_mismatch_closes [of wrong_name_world strict_tls "''irc.example.org''" 6697 None]
  by (simp add: wrong_name_world_def strict_tls_def new_ssl_backend_def backend.extend_def
      example_defs handle_close_def emit_def)

text \<open>
  C9 as stated fails: a certificate for another host and a handshake that fails with the
  right certificate leave the backend in the same state and give the bot the same
  notification, \<^verbatim>\<open>on_close\<close>; no notification tells them apart.
\<close>

theorem ssl_mismatch_not_distinct:
  "ssl_initiate_connect ''irc.example.org'' 6697 None wrong_name_world strict_tls =
     ssl_initiate_connect ''irc.example.org'' 6697 None broken_handshake_world strict_tls
   \<and> trace (final (ssl_initiate_connect ''irc.example.org'' 6697 None wrong_name_world
        strict_tls)) = [SchedulerStop, OnClose]"
  by (simp add: tls_defs wrong_name_world_def broken_handshake_world_def strict_tls_def
      new_ssl_backend_def backend.extend_def example_defs handle_close_def emit_def)

end
